theory Spec2Isabelle
  imports Main "HOL-Library.Sublist"
begin

text \<open>
  Four independent scripts, each modelled as it is written: the shopping list and its
  persistence (srp.py), the specifications and the filter (ocp.py), the device interfaces
  (isp.py) and the relationships store (dip.py). The definitions come first, the
  properties after them.
\<close>

datatype py_error =
    IndexError
  | OSError
  | ValueError
  | AttributeError
  | NotImplementedError "string list"

section \<open>Single responsibility principle: the shopping list and its persistence (srp.py)\<close>

text \<open>\<open>str\<close> of a Python \<open>int\<close>: the decimal digits, with a minus sign below zero.\<close>

fun str_nat :: "nat \<Rightarrow> string" where
  "str_nat n =
     (if n < 10 then [''0123456789'' ! n]
      else str_nat (n div 10) @ [''0123456789'' ! (n mod 10)])"

declare str_nat.simps [simp del]

definition str_int :: "int \<Rightarrow> string" where
  "str_int i = (if i < 0 then ''-'' @ str_nat (nat (- i)) else str_nat (nat i))"


text \<open>The instance attributes of \<open>ShoppingList\<close>, and \<open>__init__\<close>.\<close>

record shopping_list =
  entries :: "string list"
  count :: int

definition ShoppingList :: shopping_list where
  "ShoppingList = \<lparr>entries = [], count = 0\<rparr>"

text \<open>The f-string \<open>f"{self.count}: {text}"\<close>.\<close>

definition entry_line :: "shopping_list \<Rightarrow> string \<Rightarrow> string" where
  "entry_line self text = str_int (count self) @ '': '' @ text"

definition add_entry :: "shopping_list \<Rightarrow> string \<Rightarrow> shopping_list" where
  "add_entry self text =
     (let self1 = self\<lparr>entries := entries self @ [entry_line self text]\<rparr>
      in self1\<lparr>count := count self1 + 1\<rparr>)"

text \<open>
  \<open>del xs[pos]\<close>: a negative position counts from the end; a position that is still
  outside the list raises \<open>IndexError\<close> and leaves the list as it is.
\<close>

definition py_del :: "'a list \<Rightarrow> int \<Rightarrow> py_error + 'a list" where
  "py_del xs pos =
     (let n = int (length xs);
          i = (if pos < 0 then pos + n else pos)
      in if i < 0 \<or> n \<le> i then Inl IndexError
         else Inr (take (nat i) xs @ drop (Suc (nat i)) xs))"

text \<open>
  \<open>remove_entry\<close> returns how the call ended together with the object after it: when
  \<open>del\<close> raises, the decrement of \<open>count\<close> is not reached.
\<close>

definition remove_entry :: "shopping_list \<Rightarrow> int \<Rightarrow> (py_error + unit) \<times> shopping_list" where
  "remove_entry self pos =
     (case py_del (entries self) pos of
        Inl e \<Rightarrow> (Inl e, self)
      | Inr es \<Rightarrow>
          (let self1 = self\<lparr>entries := es\<rparr>
           in (Inr (), self1\<lparr>count := count self1 - 1\<rparr>)))"







text \<open>The list the script builds, and a run that also removes an entry.\<close>

definition script_list :: shopping_list where
  "script_list = add_entry (add_entry ShoppingList ''bread'') ''phone''"


subsection \<open>The file system that \<open>save_to_file\<close> acts on\<close>









section \<open>Open/closed principle: specifications and filters (ocp.py)\<close>

text \<open>
  The enumerations \<open>Color\<close> and \<open>Size\<close> and the class \<open>Product\<close>, whose three
  attributes are set once by the constructor.
\<close>

datatype color = RED | GREEN | BLUE

datatype size = SMALL | MEDIUM | LARGE

record product =
  product_name :: string
  product_color :: color
  product_size :: size

text \<open>
  What \<open>is_satisfied\<close> hands back is a Python object: the base class' method body is
  \<open>pass\<close>, so it returns \<open>None\<close>; the subclasses return a \<open>bool\<close>. The \<open>if\<close> of the
  filter and the builtin \<open>all\<close> test the truth value of that object.
\<close>

datatype pyval = PyNone | PyBool bool

fun truthy :: "pyval \<Rightarrow> bool" where
  "truthy PyNone = False"
| "truthy (PyBool b) = b"

text \<open>\<open>a and b\<close>: the left operand when it is falsy, the right operand otherwise.\<close>

definition py_and :: "pyval \<Rightarrow> pyval \<Rightarrow> pyval" where
  "py_and a b = (if truthy a then b else a)"

text \<open>The builtin \<open>all\<close>: \<open>False\<close> at the first falsy element, \<open>True\<close> at the end.\<close>

fun py_all :: "pyval list \<Rightarrow> bool" where
  "py_all [] = True"
| "py_all (v # vs) = (if truthy v then py_all vs else False)"

text \<open>
  The class \<open>Specification\<close> and its subclasses. \<open>AndSpecification\<close> keeps the tuple
  \<open>args\<close> of its constructor's arguments, of any length.
\<close>

datatype spec =
    Specification
  | ColorSpecification color
  | SizeSpecification size
  | NameSpecification string
  | AndSpecificationWorse spec spec
  | AndSpecification "spec list"

text \<open>
  \<open>is_satisfied\<close>, one equation per class. \<open>str.lower\<close> belongs to the Python library
  and is a parameter \<open>lower\<close> of the model; nothing below depends on what it computes.
\<close>

fun is_satisfied :: "(string \<Rightarrow> string) \<Rightarrow> spec \<Rightarrow> product \<Rightarrow> pyval" where
  "is_satisfied lower Specification item = PyNone"
| "is_satisfied lower (ColorSpecification c) item = PyBool (product_color item = c)"
| "is_satisfied lower (SizeSpecification s) item = PyBool (product_size item = s)"
| "is_satisfied lower (NameSpecification n) item =
     PyBool (lower (product_name item) = lower n)"
| "is_satisfied lower (AndSpecificationWorse spec1 spec2) item =
     py_and (is_satisfied lower spec1 item) (is_satisfied lower spec2 item)"
| "is_satisfied lower (AndSpecification args) item =
     PyBool (py_all (map (\<lambda>spec. is_satisfied lower spec item) args))"

text \<open>\<open>Specification.__and__\<close>, inherited by every subclass: \<open>self & other\<close>.\<close>

definition spec_and :: "spec \<Rightarrow> spec \<Rightarrow> spec" where
  "spec_and self other = AndSpecification [self, other]"

text \<open>
  \<open>BetterFilter.filter\<close> is a generator; the list is the sequence of the items it yields,
  in the order it yields them.
\<close>

fun better_filter :: "(string \<Rightarrow> string) \<Rightarrow> product list \<Rightarrow> spec \<Rightarrow> product list" where
  "better_filter lower [] spec = []"
| "better_filter lower (item # items) spec =
     (if truthy (is_satisfied lower spec item)
      then item # better_filter lower items spec
      else better_filter lower items spec)"

text \<open>The lower-casing of the ASCII letters, for running the model on the script's data.\<close>

definition ascii_lower_char :: "char \<Rightarrow> char" where
  "ascii_lower_char c =
     (if 65 \<le> (of_char c :: nat) \<and> (of_char c :: nat) \<le> 90
      then char_of ((of_char c :: nat) + 32) else c)"

definition ascii_lower :: "string \<Rightarrow> string" where
  "ascii_lower s = map ascii_lower_char s"

text \<open>The three products of the script.\<close>

definition apple :: product where
  "apple = \<lparr>product_name = ''Apple'', product_color = GREEN, product_size = SMALL\<rparr>"

definition tree :: product where
  "tree = \<lparr>product_name = ''Tree'', product_color = GREEN, product_size = LARGE\<rparr>"

definition house :: product where
  "house = \<lparr>product_name = ''House'', product_color = BLUE, product_size = LARGE\<rparr>"

definition products :: "product list" where
  "products = [apple, tree, house]"

section \<open>Interface segregation principle: the device classes (isp.py)\<close>

text \<open>The classes of the script, and \<open>object\<close>, the base of those that name no base.\<close>

datatype cls =
    Machine
  | MultiFunctionPrinter
  | OldFashionedPrinter
  | Printer
  | Scanner
  | MyPrinter
  | Photocopier
  | MultiFunctionDevice
  | MultiFunctionMachine
  | Object

text \<open>The bases in each \<open>class\<close> statement, in the order written.\<close>

fun bases :: "cls \<Rightarrow> cls list" where
  "bases Machine = [Object]"
| "bases MultiFunctionPrinter = [Machine]"
| "bases OldFashionedPrinter = [Machine]"
| "bases Printer = [Object]"
| "bases Scanner = [Object]"
| "bases MyPrinter = [Printer]"
| "bases Photocopier = [Printer, Scanner]"
| "bases MultiFunctionDevice = [Printer, Scanner]"
| "bases MultiFunctionMachine = [MultiFunctionDevice]"
| "bases Object = []"

text \<open>
  The method resolution order of each class: the class, then the linearisation of its
  bases, each base before its own bases and in the order of the \<open>class\<close> statement.
\<close>

fun mro :: "cls \<Rightarrow> cls list" where
  "mro Machine = [Machine, Object]"
| "mro MultiFunctionPrinter = [MultiFunctionPrinter, Machine, Object]"
| "mro OldFashionedPrinter = [OldFashionedPrinter, Machine, Object]"
| "mro Printer = [Printer, Object]"
| "mro Scanner = [Scanner, Object]"
| "mro MyPrinter = [MyPrinter, Printer, Object]"
| "mro Photocopier = [Photocopier, Printer, Scanner, Object]"
| "mro MultiFunctionDevice = [MultiFunctionDevice, Printer, Scanner, Object]"
| "mro MultiFunctionMachine =
     [MultiFunctionMachine, MultiFunctionDevice, Printer, Scanner, Object]"
| "mro Object = [Object]"

text \<open>
  The bodies of the methods: \<open>pass\<close>, \<open>raise NotImplementedError(...)\<close> with the
  constructor's arguments, \<open>print(document)\<close>, \<open>print("...")\<close> of a fixed text, and the
  two forwarding calls of \<open>MultiFunctionMachine\<close>. A docstring before a \<open>raise\<close> does
  nothing.
\<close>

datatype body =
    Pass
  | Raise_NotImplementedError "string list"
  | Print_document
  | Print_text string
  | Forward_to_printer
  | Forward_to_scanner

text \<open>
  The methods each \<open>class\<close> statement defines. \<open>abstractmethod\<close> only marks the
  function: the classes do not use \<open>ABCMeta\<close>, so the body stays a plain \<open>pass\<close>.
  \<open>object\<close> has no method named \<open>print\<close>, \<open>fax\<close> or \<open>scan\<close>.
\<close>

fun methods :: "cls \<Rightarrow> (string \<times> body) list" where
  "methods Machine =
     [(''print'', Raise_NotImplementedError []),
      (''fax'', Raise_NotImplementedError []),
      (''scan'', Raise_NotImplementedError [])]"
| "methods MultiFunctionPrinter =
     [(''print'', Pass), (''fax'', Pass), (''scan'', Pass)]"
| "methods OldFashionedPrinter =
     [(''print'', Print_text ''Start printing...''),
      (''fax'', Pass),
      (''scan'', Raise_NotImplementedError [''Printer cannot scan!''])]"
| "methods Printer = [(''print'', Pass)]"
| "methods Scanner = [(''scan'', Pass)]"
| "methods MyPrinter = [(''print'', Print_document)]"
| "methods Photocopier = [(''print'', Print_document), (''scan'', Pass)]"
| "methods MultiFunctionDevice = [(''print'', Pass), (''scan'', Pass)]"
| "methods MultiFunctionMachine =
     [(''print'', Forward_to_printer), (''scan'', Forward_to_scanner)]"
| "methods Object = []"

text \<open>Attribute lookup on the class: the first class of the resolution order that has it.\<close>

fun find_method :: "cls list \<Rightarrow> string \<Rightarrow> body option" where
  "find_method [] m = None"
| "find_method (c # cs) m =
     (case map_of (methods c) m of
        Some b \<Rightarrow> Some b
      | None \<Rightarrow> find_method cs m)"

definition lookup_method :: "cls \<Rightarrow> string \<Rightarrow> body option" where
  "lookup_method c m = find_method (mro c) m"

text \<open>
  The objects: an instance of a class whose constructor takes no argument and sets no
  attribute, or a \<open>MultiFunctionMachine(printer, scanner)\<close> with its two attributes.
\<close>

datatype device =
    Instance cls
  | MultiFunctionMachine_of device device

fun class_of :: "device \<Rightarrow> cls" where
  "class_of (Instance c) = c"
| "class_of (MultiFunctionMachine_of printer scanner) = MultiFunctionMachine"

text \<open>What a call writes to the standard output: a document or a fixed text.\<close>

datatype 'd printed = Document 'd | Text string

text \<open>
  \<open>self.m(document)\<close>: how the call ends and what it printed. A name that no class of
  the resolution order defines raises \<open>AttributeError\<close> when it is looked up; so does
  \<open>self.printer\<close> on an object without that attribute.
\<close>

fun call :: "device \<Rightarrow> string \<Rightarrow> 'd \<Rightarrow> (py_error + unit) \<times> 'd printed list" where
  "call self m document =
     (case lookup_method (class_of self) m of
        None \<Rightarrow> (Inl AttributeError, [])
      | Some Pass \<Rightarrow> (Inr (), [])
      | Some (Raise_NotImplementedError args) \<Rightarrow> (Inl (NotImplementedError args), [])
      | Some Print_document \<Rightarrow> (Inr (), [Document document])
      | Some (Print_text t) \<Rightarrow> (Inr (), [Text t])
      | Some Forward_to_printer \<Rightarrow>
          (case self of
             MultiFunctionMachine_of printer scanner \<Rightarrow> call printer ''print'' document
           | Instance c \<Rightarrow> (Inl AttributeError, []))
      | Some Forward_to_scanner \<Rightarrow>
          (case self of
             MultiFunctionMachine_of printer scanner \<Rightarrow> call scanner ''scan'' document
           | Instance c \<Rightarrow> (Inl AttributeError, [])))"

declare call.simps [simp del]

section \<open>Dependency inversion principle: the relationships store (dip.py)\<close>

datatype relationship = PARENT | CHILD | SIBLING

record person =
  person_name :: string

type_synonym edge = "person \<times> relationship \<times> person"

text \<open>
  The list objects of the program, by address, the address bound to the class
  attribute \<open>Relationships.relations\<close> when the class statement ran, and the number of
  instances made so far.
\<close>

record store =
  heap :: "nat \<Rightarrow> edge list"
  class_relations :: nat
  instances_made :: nat

text \<open>
  An instance has its identity and its own attribute dictionary, from attribute names
  to addresses. \<open>Relationships\<close> has no \<open>__init__\<close>: the constructor call
  \<open>Relationships()\<close> returns a new object with no attribute of its own.
\<close>

record py_instance =
  ident :: nat
  attrs :: "string \<Rightarrow> nat option"

definition Relationships :: "store \<Rightarrow> py_instance \<times> store" where
  "Relationships st =
     (\<lparr>ident = instances_made st, attrs = (\<lambda>a. None)\<rparr>,
      st\<lparr>instances_made := Suc (instances_made st)\<rparr>)"

text \<open>\<open>self.relations\<close>: the instance's own attribute if it has one, the class attribute if not.\<close>

definition self_relations :: "store \<Rightarrow> py_instance \<Rightarrow> nat" where
  "self_relations st self =
     (case attrs self ''relations'' of
        Some a \<Rightarrow> a
      | None \<Rightarrow> class_relations st)"

text \<open>\<open>xs.append(x)\<close> changes the list object in place.\<close>

definition list_append :: "store \<Rightarrow> nat \<Rightarrow> edge \<Rightarrow> store" where
  "list_append st a x = st\<lparr>heap := (heap st)(a := heap st a @ [x])\<rparr>"

definition add_parent_and_child :: "store \<Rightarrow> py_instance \<Rightarrow> person \<Rightarrow> person \<Rightarrow> store" where
  "add_parent_and_child st self parent child =
     (let st1 = list_append st (self_relations st self) (parent, PARENT, child)
      in list_append st1 (self_relations st1 self) (child, PARENT, parent))"

text \<open>The generator's loop over a list of edges, and the names it yields.\<close>

fun children_in :: "edge list \<Rightarrow> string \<Rightarrow> string list" where
  "children_in [] name = []"
| "children_in (r # rs) name =
     (if person_name (fst r) = name \<and> fst (snd r) = PARENT
      then person_name (snd (snd r)) # children_in rs name
      else children_in rs name)"

definition find_all_children_of :: "store \<Rightarrow> py_instance \<Rightarrow> string \<Rightarrow> string list" where
  "find_all_children_of st self name = children_in (heap st (self_relations st self)) name"

text \<open>The names that occur in an edge list, as subject or as object.\<close>

definition names_in :: "edge list \<Rightarrow> string set" where
  "names_in rs = (\<lambda>r. person_name (fst r)) ` set rs \<union> (\<lambda>r. person_name (snd (snd r))) ` set rs"

text \<open>The store when the class statement has run, and the persons of the script.\<close>

definition class_defined :: store where
  "class_defined = \<lparr>heap = (\<lambda>a. []), class_relations = 0, instances_made = 0\<rparr>"

definition john :: person where
  "john = \<lparr>person_name = ''John''\<rparr>"

definition chris :: person where
  "chris = \<lparr>person_name = ''Chris''\<rparr>"

definition matt :: person where
  "matt = \<lparr>person_name = ''Matt''\<rparr>"

text \<open>Two instances made one after the other, before any edge is added.\<close>

definition two_instances :: "(py_instance \<times> py_instance) \<times> store" where
  "two_instances =
     (let (r1, st1) = Relationships class_defined;
          (r2, st2) = Relationships st1
      in ((r1, r2), st2))"

text \<open>The script: one instance, John linked to Chris and then to Matt.\<close>

definition script_store :: "py_instance \<times> store" where
  "script_store =
     (let (r, st) = Relationships class_defined;
          st1 = add_parent_and_child st r john chris;
          st2 = add_parent_and_child st1 r john matt
      in (r, st2))"

section \<open>Properties\<close>

subsection \<open>The shopping list\<close>








lemma script_list_value:
  "script_list = \<lparr>entries = [''0: bread'', ''1: phone''], count = 2\<rparr>"
  by (simp add: script_list_def add_entry_def ShoppingList_def entry_line_def
      str_int_def str_nat.simps)




text \<open>
  C7. \<open>remove_entry\<close> raises \<open>IndexError\<close> exactly when the position is outside the
  list, that is below minus the length or not below the length; it returns normally
  exactly on the other positions; and when it raises, the object is as it was.
\<close>

theorem remove_entry_bounds:
  "(fst (remove_entry self pos) = Inl IndexError)
     = (pos < - int (length (entries self)) \<or> int (length (entries self)) \<le> pos)
   \<and> (fst (remove_entry self pos) = Inr ())
     = (- int (length (entries self)) \<le> pos \<and> pos < int (length (entries self)))
   \<and> (fst (remove_entry self pos) \<noteq> Inr () \<longrightarrow>
        remove_entry self pos = (Inl IndexError, self))"
  by (auto simp: remove_entry_def py_del_def Let_def split: sum.splits)

theorem remove_entry_bounds_witness:
  "remove_entry script_list 2 = (Inl IndexError, script_list)
   \<and> fst (remove_entry script_list (- 3)) = Inl IndexError
   \<and> fst (remove_entry script_list (- 2)) = Inr ()
   \<and> remove_entry script_list 1 = (Inr (), \<lparr>entries = [''0: bread''], count = 1\<rparr>)"
  using remove_entry_bounds [of script_list 2] remove_entry_bounds [of script_list "- 3"]
    remove_entry_bounds [of script_list "- 2"]
  by (simp add: script_list_value remove_entry_def py_del_def)

subsection \<open>Saving the list\<close>










subsection \<open>The filter and the conjunction\<close>


lemma ascii_lower_house:
  "ascii_lower ''House'' = ''house''" "ascii_lower ''house'' = ''house''"
  "ascii_lower ''Tree'' = ''tree''" "ascii_lower ''Apple'' = ''apple''"
  unfolding ascii_lower_def ascii_lower_char_def by code_simp+

lemma py_all_iff: "py_all vs = list_all truthy vs"
  by (induction vs) simp_all

lemma truthy_py_and: "truthy (py_and a b) = (truthy a \<and> truthy b)"
  by (simp add: py_and_def)

lemma better_filter_eq_filter:
  "better_filter lower items spec = filter (\<lambda>item. truthy (is_satisfied lower spec item)) items"
  by (induction items) simp_all

text \<open>
  C1. The items that \<open>BetterFilter.filter\<close> yields are exactly the items of the input
  whose \<open>is_satisfied\<close> is true, each as often as it occurs in the input and in the
  input's order: the result is the input with the other items struck out.
\<close>

theorem better_filter_exact:
  "better_filter lower items spec
     = filter (\<lambda>item. truthy (is_satisfied lower spec item)) items
   \<and> subseq (better_filter lower items spec) items
   \<and> set (better_filter lower items spec)
     = {item. item \<in> set items \<and> truthy (is_satisfied lower spec item)}"
proof -
  have eq: "better_filter lower items spec
      = filter (\<lambda>item. truthy (is_satisfied lower spec item)) items"
    by (rule better_filter_eq_filter)
  have sub: "subseq (better_filter lower items spec) items"
    unfolding eq by (rule subseq_filter_left)
  have mem: "set (better_filter lower items spec)
      = {item. item \<in> set items \<and> truthy (is_satisfied lower spec item)}"
    unfolding eq by auto
  from eq sub mem show ?thesis by blast
qed

theorem better_filter_exact_witness:
  "better_filter ascii_lower products (ColorSpecification GREEN) = [apple, tree]
   \<and> better_filter ascii_lower products (NameSpecification ''house'') = [house]
   \<and> better_filter ascii_lower products Specification = []"
  using better_filter_exact [of ascii_lower products "ColorSpecification GREEN"]
  by (simp add: products_def apple_def tree_def house_def ascii_lower_house)

text \<open>
  C2. An \<open>AndSpecification\<close> is satisfied by an item iff each of its children is;
  with no child it is satisfied by every item, and with the two children \<open>A\<close> and \<open>B\<close>
  it is satisfied iff both are.
\<close>

theorem and_specification_all:
  "truthy (is_satisfied lower (AndSpecification args) x)
     = (\<forall>spec \<in> set args. truthy (is_satisfied lower spec x))
   \<and> truthy (is_satisfied lower (AndSpecification []) x)
   \<and> truthy (is_satisfied lower (AndSpecification [A, B]) x)
     = (truthy (is_satisfied lower A x) \<and> truthy (is_satisfied lower B x))"
  by (simp add: py_all_iff list_all_iff)

theorem and_specification_all_witness:
  "truthy (is_satisfied ascii_lower
       (AndSpecification [SizeSpecification LARGE, ColorSpecification BLUE,
          NameSpecification ''house'']) house)
   \<and> truthy (is_satisfied ascii_lower (SizeSpecification LARGE) house)
   \<and> truthy (is_satisfied ascii_lower (ColorSpecification BLUE) house)
   \<and> truthy (is_satisfied ascii_lower (NameSpecification ''house'') house)
   \<and> \<not> truthy (is_satisfied ascii_lower
       (AndSpecification [SizeSpecification LARGE, ColorSpecification BLUE]) tree)
   \<and> better_filter ascii_lower products
       (AndSpecification [SizeSpecification LARGE, ColorSpecification BLUE]) = [house]"
  using and_specification_all [of ascii_lower
      "[SizeSpecification LARGE, ColorSpecification BLUE, NameSpecification ''house'']"
      house "SizeSpecification LARGE" "ColorSpecification BLUE"]
  by (simp add: house_def tree_def apple_def products_def ascii_lower_house)

text \<open>
  C8. The node built by \<open>(A & B) & C\<close> and the node built by \<open>A & (B & C)\<close> return
  the same value on every item, and that value is true iff \<open>A\<close>, \<open>B\<close> and \<open>C\<close> are each
  satisfied by the item.
\<close>

theorem spec_and_assoc:
  "is_satisfied lower (spec_and (spec_and A B) C) x
     = is_satisfied lower (spec_and A (spec_and B C)) x
   \<and> truthy (is_satisfied lower (spec_and (spec_and A B) C) x)
     = (truthy (is_satisfied lower A x) \<and> truthy (is_satisfied lower B x)
        \<and> truthy (is_satisfied lower C x))
   \<and> truthy (is_satisfied lower (spec_and A (spec_and B C)) x)
     = (truthy (is_satisfied lower A x) \<and> truthy (is_satisfied lower B x)
        \<and> truthy (is_satisfied lower C x))"
  by (simp add: spec_and_def)

theorem spec_and_assoc_witness:
  "is_satisfied ascii_lower
       (spec_and (spec_and (SizeSpecification LARGE) (ColorSpecification BLUE))
          (NameSpecification ''house'')) house = PyBool True
   \<and> is_satisfied ascii_lower
       (spec_and (SizeSpecification LARGE)
          (spec_and (ColorSpecification BLUE) (NameSpecification ''house''))) house = PyBool True
   \<and> is_satisfied ascii_lower
       (spec_and (spec_and (SizeSpecification LARGE) (ColorSpecification BLUE))
          (NameSpecification ''house'')) tree = PyBool False"
  using spec_and_assoc [of ascii_lower "SizeSpecification LARGE" "ColorSpecification BLUE"
      "NameSpecification ''house''" house]
  by (simp add: spec_and_def house_def tree_def ascii_lower_house)

subsection \<open>The device classes\<close>

text \<open>
  The resolution orders agree with the \<open>class\<close> statements: each starts with its class,
  keeps the bases in the order written, and keeps the order of every base.
\<close>

lemma mro_linear:
  "hd (mro c) = c \<and> subseq (bases c) (tl (mro c))
   \<and> list_all (\<lambda>b. subseq (mro b) (mro c)) (bases c)"
  by (cases c) simp_all

text \<open>
  C4, as the code has it. The narrow classes define and inherit no method for the
  capabilities they leave out: \<open>MyPrinter\<close> and \<open>Printer\<close> have no \<open>scan\<close> and no
  \<open>fax\<close>, \<open>Scanner\<close> has no \<open>print\<close> and no \<open>fax\<close>, \<open>Photocopier\<close> has no \<open>fax\<close>.
  Calling a method that the class of an object does not have is not a silent no-op and
  does not reach a \<open>NotImplementedError\<close>: the lookup itself raises \<open>AttributeError\<close>
  when the call runs, and nothing is printed.
\<close>

theorem narrow_device_no_method:
  "lookup_method MyPrinter ''scan'' = None
   \<and> lookup_method MyPrinter ''fax'' = None
   \<and> lookup_method Printer ''scan'' = None
   \<and> lookup_method Printer ''fax'' = None
   \<and> lookup_method Scanner ''print'' = None
   \<and> lookup_method Scanner ''fax'' = None
   \<and> lookup_method Photocopier ''fax'' = None
   \<and> (lookup_method (class_of d) m = None \<longrightarrow> call d m doc = (Inl AttributeError, []))"
  by (simp add: lookup_method_def call.simps)

theorem narrow_device_no_method_witness:
  "lookup_method (class_of (Instance Photocopier)) ''fax'' = None
   \<and> call (Instance Photocopier) ''fax'' (123 :: int) = (Inl AttributeError, [])
   \<and> call (Instance MyPrinter) ''print'' (123 :: int) = (Inr (), [Document 123])
   \<and> call (Instance OldFashionedPrinter) ''fax'' (123 :: int) = (Inr (), [])
   \<and> call (Instance OldFashionedPrinter) ''scan'' (123 :: int)
       = (Inl (NotImplementedError [''Printer cannot scan!'']), [])"
  using narrow_device_no_method [of "Instance Photocopier" "''fax''" "123 :: int"]
  by (simp add: lookup_method_def call.simps)

text \<open>
  The claim as written fails on \<open>MyPrinter().scan(123)\<close>: the call can be written and
  run, and it ends in an error raised at run time.
\<close>

theorem my_printer_scan_raises:
  "fst (call (Instance MyPrinter) ''scan'' (123 :: int)) = Inl AttributeError"
  by (simp add: lookup_method_def call.simps)

subsection \<open>The relationships store\<close>

lemma children_in_append:
  "children_in (rs @ rs') name = children_in rs name @ children_in rs' name"
  by (induction rs) simp_all

lemma children_in_unrelated:
  "name \<notin> names_in rs \<Longrightarrow> children_in rs name = []"
  by (induction rs) (auto simp: names_in_def)

lemma self_relations_list_append:
  "self_relations (list_append st a x) self = self_relations st self"
  by (simp add: self_relations_def list_append_def split: option.splits)

lemma heap_list_append:
  "heap (list_append st a x) b = (if b = a then heap st a @ [x] else heap st b)"
  by (simp add: list_append_def)

lemma heap_add_parent_and_child:
  "heap (add_parent_and_child st self parent child) (self_relations st self)
     = heap st (self_relations st self) @ [(parent, PARENT, child), (child, PARENT, parent)]"
  by (simp add: add_parent_and_child_def Let_def heap_list_append self_relations_list_append)

lemma self_relations_add:
  "self_relations (add_parent_and_child st r parent child) self = self_relations st self"
  by (simp add: add_parent_and_child_def Let_def self_relations_list_append)

text \<open>
  C5. \<open>add_parent_and_child\<close> appends the two edges, one after the other, to the list
  that \<open>self.relations\<close> names; after it, the children of the parent's name include the
  child's name; and in any store, a name that occurs in no edge has no children.
\<close>

theorem link_then_children:
  "heap (add_parent_and_child st self parent child)
       (self_relations (add_parent_and_child st self parent child) self)
     = heap st (self_relations st self) @ [(parent, PARENT, child), (child, PARENT, parent)]
   \<and> person_name child
       \<in> set (find_all_children_of (add_parent_and_child st self parent child) self
                (person_name parent))
   \<and> (name \<notin> names_in (heap st2 (self_relations st2 self2)) \<longrightarrow>
        find_all_children_of st2 self2 name = [])"
  by (simp add: find_all_children_of_def heap_add_parent_and_child self_relations_add
      children_in_append children_in_unrelated)

theorem link_then_children_witness:
  "find_all_children_of (snd script_store) (fst script_store) ''John'' = [''Chris'', ''Matt'']
   \<and> ''Anna'' \<notin> names_in
        (heap (snd script_store) (self_relations (snd script_store) (fst script_store)))
   \<and> find_all_children_of (snd script_store) (fst script_store) ''Anna'' = []"
  using link_then_children [of class_defined "fst script_store" john chris "''Anna''"
      "snd script_store" "fst script_store"]
  by (simp add: script_store_def Relationships_def class_defined_def john_def chris_def
      matt_def find_all_children_of_def add_parent_and_child_def list_append_def
      self_relations_def names_in_def)

text \<open>
  C9. The second edge that \<open>add_parent_and_child\<close> appends is
  \<open>(child, PARENT, parent)\<close>, so after the call the children of the child's name are
  those found before, followed by the child's own name when parent and child have the
  same name, followed by the parent's name.
\<close>

theorem child_query_yields_parent:
  "find_all_children_of (add_parent_and_child st self parent child) self (person_name child)
     = find_all_children_of st self (person_name child)
       @ (if person_name parent = person_name child then [person_name child] else [])
       @ [person_name parent]
   \<and> person_name parent
       \<in> set (find_all_children_of (add_parent_and_child st self parent child) self
                (person_name child))"
  by (simp add: find_all_children_of_def heap_add_parent_and_child self_relations_add
      children_in_append)

theorem child_query_yields_parent_witness:
  "find_all_children_of
       (add_parent_and_child (snd (Relationships class_defined))
          (fst (Relationships class_defined)) john chris)
       (fst (Relationships class_defined)) ''Chris'' = [''John'']"
  using child_query_yields_parent [of "snd (Relationships class_defined)"
      "fst (Relationships class_defined)" john chris]
  by (simp add: Relationships_def class_defined_def john_def chris_def
      find_all_children_of_def self_relations_def)

text \<open>
  C10. Instances without a \<open>relations\<close> attribute of their own, as \<open>Relationships()\<close>
  makes them, all read and change the one list of the class: the edges added through
  \<open>r1\<close> are at the end of the list that \<open>r2\<close> reads, the children of the parent's name
  asked through \<open>r2\<close> include the child's name, and an instance made after the call
  has no attribute of its own and finds a child for the parent's name at once.
\<close>

theorem relations_shared:
  assumes "attrs r1 ''relations'' = None" and "attrs r2 ''relations'' = None"
  shows "heap (add_parent_and_child st r1 parent child)
           (self_relations (add_parent_and_child st r1 parent child) r2)
       = heap st (self_relations st r2) @ [(parent, PARENT, child), (child, PARENT, parent)]
     \<and> person_name child
         \<in> set (find_all_children_of (add_parent_and_child st r1 parent child) r2
                  (person_name parent))
     \<and> attrs (fst (Relationships (add_parent_and_child st r1 parent child))) ''relations'' = None
     \<and> find_all_children_of
          (snd (Relationships (add_parent_and_child st r1 parent child)))
          (fst (Relationships (add_parent_and_child st r1 parent child)))
          (person_name parent) \<noteq> []"
proof -
  let ?st = "add_parent_and_child st r1 parent child"
  have same: "self_relations st r2 = self_relations st r1"
    using assms by (simp add: self_relations_def)
  have l: "heap ?st (self_relations ?st r2)
      = heap st (self_relations st r2) @ [(parent, PARENT, child), (child, PARENT, parent)]"
    by (simp add: same self_relations_add heap_add_parent_and_child)
  have c: "person_name child \<in> set (find_all_children_of ?st r2 (person_name parent))"
    unfolding find_all_children_of_def l by (simp add: children_in_append)
  have n: "attrs (fst (Relationships ?st)) ''relations'' = None"
    by (simp add: Relationships_def)
  have "heap (snd (Relationships ?st))
        (self_relations (snd (Relationships ?st)) (fst (Relationships ?st)))
      = heap ?st (self_relations ?st r1)"
    using assms(1) by (simp add: Relationships_def self_relations_def)
  then have e: "find_all_children_of (snd (Relationships ?st)) (fst (Relationships ?st))
      (person_name parent) \<noteq> []"
    by (simp add: find_all_children_of_def self_relations_add heap_add_parent_and_child
        children_in_append)
  from l c n e show ?thesis by blast
qed

theorem relations_shared_witness:
  "attrs (fst (fst two_instances)) ''relations'' = None
   \<and> attrs (snd (fst two_instances)) ''relations'' = None
   \<and> ident (fst (fst two_instances)) = 0 \<and> ident (snd (fst two_instances)) = 1
   \<and> find_all_children_of class_defined (snd (fst two_instances)) ''John'' = []
   \<and> find_all_children_of
        (add_parent_and_child (snd two_instances) (fst (fst two_instances)) john chris)
        (snd (fst two_instances)) ''John'' = [''Chris'']"
  using relations_shared [of "fst (fst two_instances)" "snd (fst two_instances)"
      "snd two_instances" john chris]
  by (simp add: two_instances_def Relationships_def class_defined_def john_def chris_def
      find_all_children_of_def add_parent_and_child_def list_append_def self_relations_def)

end
